theory Spec2Isabelle
  imports Complex_Main
begin

section \<open>Common conventions\<close>

text \<open>
  The trade simulation of the repository exists twice: \<^verbatim>\<open>backtest/engine.py\<close>
  (class \<^verbatim>\<open>BacktestEngine\<close>) and \<^verbatim>\<open>app/paper_trader.py\<close> (class
  \<^verbatim>\<open>PaperTrader\<close>). Both are embedded below.

  \<^item> Python floats are modelled as real numbers, so rounding, infinities and NaN are
    outside the model. Division follows the Python operator: a zero divisor raises
    \<^verbatim>\<open>ZeroDivisionError\<close>.
  \<^item> A timestamp (\<^verbatim>\<open>pd.Timestamp\<close>, \<^verbatim>\<open>datetime\<close>) is a number of
    seconds; a minute is 60 and a calendar day is 86400 of them.
  \<^item> The engines mutate objects in place. A trade object is identified by its position
    in the list \<^verbatim>\<open>trades\<close>, to which both engines only ever append, and
    \<^verbatim>\<open>active_trades\<close> is the list of the positions of the trades it refers to.
  \<^item> A call that raises leaves the object mutated up to the raise; an outcome therefore
    carries the state in both cases.
\<close>

type_synonym time = int

datatype py_error = ZeroDivisionError

datatype 's outcome = Done 's | Raised py_error 's

fun state_of :: "'s outcome \<Rightarrow> 's" where
  "state_of (Done s) = s"
| "state_of (Raised err s) = s"

fun and_then :: "'s outcome \<Rightarrow> ('s \<Rightarrow> 's outcome) \<Rightarrow> 's outcome" where
  "and_then (Done s) f = f s"
| "and_then (Raised err s) f = Raised err s"

section \<open>Backtest mode: \<^verbatim>\<open>backtest/models.py\<close> and \<^verbatim>\<open>backtest/engine.py\<close>\<close>

record signal =
  sig_token_address :: string
  sig_symbol :: string
  sig_chain :: string
  signal_time :: time
  signal_score :: real
  price_at_signal :: real

record trade =
  token_address :: string
  entry_price :: real
  entry_time :: time
  position_size_usd :: real
  entry_score :: real
  current_units :: real
  realized_pnl :: real
  status :: string
  ath_price :: real
  stop_loss_price :: real
  tp1_hit :: bool
  tp2_hit :: bool
  tp3_hit :: bool
  exit_reason :: string
  exit_time :: "time option"

record equity_sample =
  sample_time :: time
  sample_equity :: real
  sample_capital :: real

record engine =
  capital :: real
  initial_capital :: real
  equity :: real
  trades :: "trade list"
  active_trades :: "nat list"
  daily_start_equity :: real
  current_day :: "int option"
  daily_loss_limit_hit :: bool
  equity_curve :: "equity_sample list"

text \<open>
  A price frame is the list of its rows (index, price) in index order; the price data
  is the dictionary from token address to frame, kept as an association list because
  \<^verbatim>\<open>run\<close> iterates over its values.
\<close>

type_synonym frame = "(time \<times> real) list"
type_synonym price_data = "(string \<times> frame) list"

definition BacktestEngine :: "real \<Rightarrow> engine" where
  "BacktestEngine initial_cap =
     \<lparr>capital = initial_cap, initial_capital = initial_cap, equity = initial_cap,
      trades = [], active_trades = [], daily_start_equity = initial_cap,
      current_day = None, daily_loss_limit_hit = False, equity_curve = []\<rparr>"

subsection \<open>\<^verbatim>\<open>_process_signal\<close>\<close>

definition risk_pct_of :: "real \<Rightarrow> real" where
  "risk_pct_of score =
     (if score \<ge> 90 then 0.025 else if score \<ge> 85 then 0.020 else 0.015)"

definition pos_size_usd_of :: "real \<Rightarrow> real \<Rightarrow> real" where
  "pos_size_usd_of cap score =
     (let risk_amount = cap * risk_pct_of score;
          initial_sl_pct = 0.15;
          pos_size_usd = risk_amount / initial_sl_pct
      in if pos_size_usd > cap then cap else pos_size_usd)"

definition new_trade :: "signal \<Rightarrow> real \<Rightarrow> trade" where
  "new_trade sig pos_size_usd =
     \<lparr>token_address = sig_token_address sig,
      entry_price = price_at_signal sig,
      entry_time = signal_time sig,
      position_size_usd = pos_size_usd,
      entry_score = signal_score sig,
      current_units = pos_size_usd / price_at_signal sig,
      realized_pnl = 0,
      status = ''OPEN'',
      ath_price = price_at_signal sig,
      stop_loss_price = price_at_signal sig * (1 - 0.15),
      tp1_hit = False, tp2_hit = False, tp3_hit = False,
      exit_reason = '''',
      exit_time = None\<rparr>"

definition engine_process_signal :: "engine \<Rightarrow> signal \<Rightarrow> engine outcome" where
  "engine_process_signal e sig =
     (if signal_score sig < 80 then Done e
      else if length (active_trades e) \<ge> 4 then Done e
      else if daily_loss_limit_hit e then Done e
      else
        let pos_size_usd = pos_size_usd_of (capital e) (signal_score sig);
            e1 = e\<lparr>capital := capital e - pos_size_usd\<rparr>
        in if price_at_signal sig = 0 then Raised ZeroDivisionError e1
           else Done (e1\<lparr>active_trades := active_trades e1 @ [length (trades e1)],
                          trades := trades e1 @ [new_trade sig pos_size_usd]\<rparr>))"

subsection \<open>\<^verbatim>\<open>_close_trade\<close> and \<^verbatim>\<open>_partial_close\<close>\<close>

definition trade_close :: "trade \<Rightarrow> real \<Rightarrow> time \<Rightarrow> string \<Rightarrow> trade" where
  "trade_close t price tm reason =
     (let proceeds = current_units t * price
      in t\<lparr>realized_pnl := realized_pnl t + (proceeds - current_units t * entry_price t),
            current_units := 0,
            status := ''CLOSED'',
            exit_reason := reason,
            exit_time := Some tm\<rparr>)"

definition engine_close_trade :: "engine \<Rightarrow> nat \<Rightarrow> real \<Rightarrow> time \<Rightarrow> string \<Rightarrow> engine" where
  "engine_close_trade e i price tm reason =
     (let t = trades e ! i;
          proceeds = current_units t * price
      in e\<lparr>capital := capital e + proceeds,
            trades := (trades e)[i := trade_close t price tm reason],
            active_trades := remove1 i (active_trades e)\<rparr>)"

definition units_to_sell :: "trade \<Rightarrow> real \<Rightarrow> real" where
  "units_to_sell t pct_of_initial =
     (let initial_units = position_size_usd t / entry_price t;
          u = initial_units * pct_of_initial
      in if u > current_units t then current_units t else u)"

definition trade_partial_close :: "trade \<Rightarrow> real \<Rightarrow> real \<Rightarrow> trade" where
  "trade_partial_close t pct_of_initial price =
     (let u = units_to_sell t pct_of_initial;
          proceeds = u * price;
          cost = u * entry_price t
      in t\<lparr>current_units := current_units t - u,
            realized_pnl := realized_pnl t + (proceeds - cost)\<rparr>)"

definition engine_partial_close ::
  "engine \<Rightarrow> nat \<Rightarrow> real \<Rightarrow> real \<Rightarrow> string \<Rightarrow> engine outcome" where
  "engine_partial_close e i pct_of_initial price reason =
     (let t = trades e ! i
      in if entry_price t = 0 then Raised ZeroDivisionError e
         else Done (e\<lparr>capital := capital e + units_to_sell t pct_of_initial * price,
                        trades := (trades e)[i := trade_partial_close t pct_of_initial price]\<rparr>))"

subsection \<open>\<^verbatim>\<open>_update_trades\<close>\<close>

definition minutes_in :: "time \<Rightarrow> trade \<Rightarrow> real" where
  "minutes_in current_time t = real_of_int (current_time - entry_time t) / 60"

definition roi_of :: "real \<Rightarrow> trade \<Rightarrow> real" where
  "roi_of price t = (price - entry_price t) / entry_price t"

definition update_ath :: "real \<Rightarrow> trade \<Rightarrow> trade" where
  "update_ath current_price t =
     (if current_price > ath_price t then t\<lparr>ath_price := current_price\<rparr> else t)"

definition hard_stop_update :: "time \<Rightarrow> trade \<Rightarrow> trade" where
  "hard_stop_update current_time t =
     (if minutes_in current_time t > 15 then
        (let hard_stop = entry_price t * 0.70
         in if stop_loss_price t > hard_stop then t
            else t\<lparr>stop_loss_price := hard_stop\<rparr>)
      else t)"

definition trailing_stop_update :: "trade \<Rightarrow> trade" where
  "trailing_stop_update t =
     (let roi_ath = roi_of (ath_price t) t
      in if roi_ath \<ge> 0.40 then
           (let trail_stop = ath_price t * (1 - 0.35)
            in if trail_stop > stop_loss_price t then t\<lparr>stop_loss_price := trail_stop\<rparr>
               else t)
         else t)"

definition set_trade :: "engine \<Rightarrow> nat \<Rightarrow> trade \<Rightarrow> engine" where
  "set_trade e i t = e\<lparr>trades := (trades e)[i := t]\<rparr>"

definition take_profit_1 :: "real \<Rightarrow> real \<Rightarrow> engine \<Rightarrow> nat \<Rightarrow> engine outcome" where
  "take_profit_1 roi current_price e i =
     (if roi \<ge> 0.40 \<and> \<not> tp1_hit (trades e ! i) then
        and_then (engine_partial_close e i 0.50 current_price ''TP1'')
          (\<lambda>e'. let t = trades e' ! i
                in Done (set_trade e' i
                     (t\<lparr>tp1_hit := True,
                         stop_loss_price := max (stop_loss_price t) (entry_price t)\<rparr>)))
      else Done e)"

definition take_profit_2 :: "real \<Rightarrow> real \<Rightarrow> engine \<Rightarrow> nat \<Rightarrow> engine outcome" where
  "take_profit_2 roi current_price e i =
     (if roi \<ge> 1.00 \<and> \<not> tp2_hit (trades e ! i) then
        and_then (engine_partial_close e i 0.25 current_price ''TP2'')
          (\<lambda>e'. Done (set_trade e' i ((trades e' ! i)\<lparr>tp2_hit := True\<rparr>)))
      else Done e)"

definition take_profit_3 :: "real \<Rightarrow> real \<Rightarrow> engine \<Rightarrow> nat \<Rightarrow> engine outcome" where
  "take_profit_3 roi current_price e i =
     (if roi \<ge> 2.00 \<and> \<not> tp3_hit (trades e ! i) then
        and_then (engine_partial_close e i 0.15 current_price ''TP3'')
          (\<lambda>e'. Done (set_trade e' i ((trades e' ! i)\<lparr>tp3_hit := True\<rparr>)))
      else Done e)"

definition check_daily_loss_limit :: "engine \<Rightarrow> engine" where
  "check_daily_loss_limit e =
     (let day_pnl = equity e - daily_start_equity e
      in if day_pnl < - (daily_start_equity e * 0.10)
         then e\<lparr>daily_loss_limit_hit := True\<rparr> else e)"

text \<open>
  The body of the loop of \<^verbatim>\<open>_update_trades\<close> from the point where the price of the
  minute is known (lines 164 to 226): peak, hard stop, trailing stop, stop check, the
  three take-profit tiers, the time exit and the daily loss check.
\<close>

definition evaluate_exits :: "time \<Rightarrow> real \<Rightarrow> engine \<Rightarrow> nat \<Rightarrow> engine outcome" where
  "evaluate_exits current_time current_price e i =
     (let e1 = set_trade e i (hard_stop_update current_time (update_ath current_price (trades e ! i)))
      in if entry_price (trades e1 ! i) = 0 then Raised ZeroDivisionError e1
         else
           let e2 = set_trade e1 i (trailing_stop_update (trades e1 ! i))
           in if current_price \<le> stop_loss_price (trades e2 ! i)
              then Done (engine_close_trade e2 i current_price current_time ''STOP_LOSS'')
              else
                let roi = roi_of current_price (trades e2 ! i)
                in and_then (take_profit_1 roi current_price e2 i) (\<lambda>e3.
                   and_then (take_profit_2 roi current_price e3 i) (\<lambda>e4.
                   and_then (take_profit_3 roi current_price e4 i) (\<lambda>e5.
                     if minutes_in current_time (trades e5 ! i) \<ge> 90
                        \<and> - 0.10 \<le> roi \<and> roi \<le> 0.20
                     then Done (engine_close_trade e5 i current_price current_time ''TIME_EXIT'')
                     else Done (check_daily_loss_limit e5)))))"

text \<open>
  The whole body for one trade of the snapshot \<^verbatim>\<open>list(self.active_trades)\<close>: the
  frame and price lookup (lines 145 to 162), then the exit rules.
\<close>

definition update_trade :: "time \<Rightarrow> price_data \<Rightarrow> engine \<Rightarrow> nat \<Rightarrow> engine outcome" where
  "update_trade current_time pd e i =
     (case map_of pd (token_address (trades e ! i)) of
        None \<Rightarrow> Done e
      | Some df \<Rightarrow>
          (case map_of df current_time of
             None \<Rightarrow>
               (if df \<noteq> [] \<and> current_time > fst (last df)
                then Done (engine_close_trade e i (snd (last df)) (fst (last df)) ''END_OF_DATA'')
                else Done e)
           | Some current_price \<Rightarrow> evaluate_exits current_time current_price e i))"

fun update_trades_loop :: "time \<Rightarrow> price_data \<Rightarrow> nat list \<Rightarrow> engine \<Rightarrow> engine outcome" where
  "update_trades_loop current_time pd [] e = Done e"
| "update_trades_loop current_time pd (i # snapshot) e =
     and_then (update_trade current_time pd e i) (update_trades_loop current_time pd snapshot)"

definition engine_update_trades :: "time \<Rightarrow> price_data \<Rightarrow> engine \<Rightarrow> engine outcome" where
  "engine_update_trades current_time pd e =
     update_trades_loop current_time pd (active_trades e) e"

subsection \<open>\<^verbatim>\<open>run\<close>\<close>

definition day_of :: "time \<Rightarrow> int" where
  "day_of t = t div 86400"

definition day_reset :: "time \<Rightarrow> engine \<Rightarrow> engine" where
  "day_reset current_time e =
     (if current_day e \<noteq> Some (day_of current_time)
      then e\<lparr>current_day := Some (day_of current_time),
              daily_start_equity := equity e,
              daily_loss_limit_hit := False\<rparr>
      else e)"

definition price_at :: "price_data \<Rightarrow> time \<Rightarrow> trade \<Rightarrow> real option" where
  "price_at pd current_time t =
     (case map_of pd (token_address t) of
        None \<Rightarrow> None
      | Some df \<Rightarrow> map_of df current_time)"

definition unrealized_value :: "time \<Rightarrow> price_data \<Rightarrow> engine \<Rightarrow> real" where
  "unrealized_value current_time pd e =
     foldl (\<lambda>current_unrealized_value i.
              case price_at pd current_time (trades e ! i) of
                None \<Rightarrow> current_unrealized_value
              | Some p \<Rightarrow> current_unrealized_value + current_units (trades e ! i) * p)
       0 (active_trades e)"

text \<open>
  The inner loop over the signals that are due. The index \<^verbatim>\<open>signal_idx\<close> is
  represented by the signals from it onwards, \<^verbatim>\<open>signals[signal_idx:]\<close>.
\<close>

fun process_due_signals ::
  "time \<Rightarrow> signal list \<Rightarrow> engine \<Rightarrow> (signal list \<times> engine) outcome" where
  "process_due_signals current_time [] e = Done ([], e)"
| "process_due_signals current_time (sig # rest) e =
     (if signal_time sig \<le> current_time then
        (case engine_process_signal e sig of
           Raised err e' \<Rightarrow> Raised err (sig # rest, e')
         | Done e' \<Rightarrow> process_due_signals current_time rest e')
      else Done (sig # rest, e))"

definition record_equity :: "time \<Rightarrow> engine \<Rightarrow> engine" where
  "record_equity current_time e =
     e\<lparr>equity_curve := equity_curve e @
         [\<lparr>sample_time = current_time, sample_equity = equity e,
           sample_capital = capital e\<rparr>]\<rparr>"

definition run_step ::
  "price_data \<Rightarrow> time \<Rightarrow> signal list \<times> engine \<Rightarrow> (signal list \<times> engine) outcome" where
  "run_step pd current_time pe =
     (case engine_update_trades current_time pd (day_reset current_time (snd pe)) of
        Raised err e2 \<Rightarrow> Raised err (fst pe, e2)
      | Done e2 \<Rightarrow>
          (case process_due_signals current_time (fst pe)
                  (e2\<lparr>equity := capital e2 + unrealized_value current_time pd e2\<rparr>) of
             Raised err pe4 \<Rightarrow> Raised err pe4
           | Done pe4 \<Rightarrow> Done (fst pe4, record_equity current_time (snd pe4))))"

definition next_time :: "time \<Rightarrow> signal list \<times> engine \<Rightarrow> time" where
  "next_time current_time pe =
     (let stepped = current_time + 60
      in if active_trades (snd pe) = [] \<and> fst pe \<noteq> [] then
           (let next_sig_time = signal_time (hd (fst pe))
            in if next_sig_time > stepped then
                 (let jump_to = next_sig_time - 60
                  in if jump_to > stepped then jump_to else stepped)
               else stepped)
         else stepped)"

lemma next_time_later: "current_time < next_time current_time pe"
  by (simp add: next_time_def Let_def)

function run_loop ::
  "price_data \<Rightarrow> time \<Rightarrow> time \<Rightarrow> signal list \<times> engine \<Rightarrow> (signal list \<times> engine) outcome"
  where
  "run_loop pd max_time current_time pe =
     (if current_time \<le> max_time then
        (case run_step pd current_time pe of
           Raised err pe' \<Rightarrow> Raised err pe'
         | Done pe' \<Rightarrow> run_loop pd max_time (next_time current_time pe') pe')
      else Done pe)"
  by pat_completeness auto

termination
proof (relation "measure (\<lambda>(pd, max_time, current_time, pe). nat (max_time + 1 - current_time))")
  show "wf (measure (\<lambda>(pd, max_time, current_time, pe). nat (max_time + 1 - current_time)))"
    by simp
next
  fix pd :: price_data and max_time current_time :: time
    and pe x2 :: "signal list \<times> engine"
  assume "current_time \<le> max_time"
  moreover have "current_time < next_time current_time x2"
    by (rule next_time_later)
  ultimately show "((pd, max_time, next_time current_time x2, x2), pd, max_time, current_time, pe)
      \<in> measure (\<lambda>(pd, max_time, current_time, pe). nat (max_time + 1 - current_time))"
    by simp
qed

declare run_loop.simps [simp del]

text \<open>
  \<^verbatim>\<open>run\<close> returns \<^verbatim>\<open>None\<close> when the price data has no row at all; otherwise
  the result, which is read off the engine: its trades, equity curve and capital.
\<close>

definition engine_run :: "engine \<Rightarrow> signal list \<Rightarrow> price_data \<Rightarrow> engine outcome option" where
  "engine_run e signals pd =
     (let sorted_signals = sort_key signal_time signals;
          all_times = concat (map (\<lambda>(tok, df). map fst df) pd)
      in if all_times = [] then None
         else
           let min_time = fold min (tl all_times) (hd all_times);
               max_time = fold max (tl all_times) (hd all_times)
           in (case run_loop pd max_time min_time (sorted_signals, e) of
                 Raised err pe \<Rightarrow> Some (Raised err (snd pe))
               | Done pe \<Rightarrow> Some (Done (snd pe))))"

subsection \<open>Runs as sequences of actions\<close>

text \<open>
  The engine state changes by the two methods \<^verbatim>\<open>_process_signal\<close> and
  \<^verbatim>\<open>_update_trades\<close> and by three assignments in the body of \<^verbatim>\<open>run\<close>: the
  day reset, the equity of the minute, and the sample appended to the equity curve. A
  sequence of such actions is performed whether or not one of them raised, as a caller
  that catches the exception would see it. Every run of \<^verbatim>\<open>run\<close> is such a
  sequence (\<open>engine_run_actions\<close>), so what holds for all sequences holds for all runs.
\<close>

datatype engine_action =
    Process_signal signal
  | Update_trades time price_data
  | Day_reset time
  | Mark_equity time price_data
  | Record_equity time

fun perform :: "engine \<Rightarrow> engine_action \<Rightarrow> engine outcome" where
  "perform e (Process_signal sig) = engine_process_signal e sig"
| "perform e (Update_trades current_time pd) = engine_update_trades current_time pd e"
| "perform e (Day_reset current_time) = Done (day_reset current_time e)"
| "perform e (Mark_equity current_time pd) =
     Done (e\<lparr>equity := capital e + unrealized_value current_time pd e\<rparr>)"
| "perform e (Record_equity current_time) = Done (record_equity current_time e)"

fun perform_all :: "engine \<Rightarrow> engine_action list \<Rightarrow> engine" where
  "perform_all e [] = e"
| "perform_all e (a # as) = perform_all (state_of (perform e a)) as"

definition action_from :: "signal set \<Rightarrow> price_data \<Rightarrow> engine_action \<Rightarrow> bool" where
  "action_from sigs pd a =
     (case a of
        Process_signal sig \<Rightarrow> sig \<in> sigs
      | Update_trades current_time pd' \<Rightarrow> pd' = pd
      | Mark_equity current_time pd' \<Rightarrow> pd' = pd
      | _ \<Rightarrow> True)"

lemma perform_all_append: "perform_all e (as @ bs) = perform_all (perform_all e as) bs"
  by (induction as arbitrary: e) simp_all

lemma process_due_signals_actions:
  "\<exists>as. snd (state_of (process_due_signals tm pending e)) = perform_all e as
     \<and> (\<forall>a\<in>set as. action_from (set pending) pd a)
     \<and> set (fst (state_of (process_due_signals tm pending e))) \<subseteq> set pending"
proof (induction pending arbitrary: e)
  case Nil
  have "snd (state_of (process_due_signals tm [] e)) = perform_all e []" by simp
  then show ?case by fastforce
next
  case (Cons sig rest)
  show ?case
  proof (cases "signal_time sig \<le> tm")
    case False
    then have "snd (state_of (process_due_signals tm (sig # rest) e)) = perform_all e []" by simp
    with False show ?thesis by fastforce
  next
    case True
    show ?thesis
    proof (cases "engine_process_signal e sig")
      case (Raised err e')
      with True have "snd (state_of (process_due_signals tm (sig # rest) e))
          = perform_all e [Process_signal sig]" by simp
      moreover have "\<forall>a\<in>set [Process_signal sig]. action_from (set (sig # rest)) pd a"
        by (simp add: action_from_def)
      moreover have "set (fst (state_of (process_due_signals tm (sig # rest) e))) \<subseteq> set (sig # rest)"
        using True Raised by simp
      ultimately show ?thesis by blast
    next
      case (Done e')
      from Cons.IH [of e'] obtain as where
        as: "snd (state_of (process_due_signals tm rest e')) = perform_all e' as"
          "\<forall>a\<in>set as. action_from (set rest) pd a"
          "set (fst (state_of (process_due_signals tm rest e'))) \<subseteq> set rest"
        by blast
      have "snd (state_of (process_due_signals tm (sig # rest) e))
          = perform_all e (Process_signal sig # as)"
        using True Done as(1) by simp
      moreover have "\<forall>a\<in>set (Process_signal sig # as). action_from (set (sig # rest)) pd a"
        using as(2) by (auto simp: action_from_def split: engine_action.splits)
      moreover have "set (fst (state_of (process_due_signals tm (sig # rest) e))) \<subseteq> set (sig # rest)"
        using True Done as(3) by auto
      ultimately show ?thesis by blast
    qed
  qed
qed

lemma action_from_mono: "action_from sigs pd a \<Longrightarrow> sigs \<subseteq> sigs' \<Longrightarrow> action_from sigs' pd a"
  by (auto simp: action_from_def split: engine_action.splits)

lemma run_step_actions:
  "\<exists>as. snd (state_of (run_step pd tm pe)) = perform_all (snd pe) as
     \<and> (\<forall>a\<in>set as. action_from (set (fst pe)) pd a)
     \<and> set (fst (state_of (run_step pd tm pe))) \<subseteq> set (fst pe)"
proof (cases "engine_update_trades tm pd (day_reset tm (snd pe))")
  case (Raised err e2)
  then have "snd (state_of (run_step pd tm pe))
      = perform_all (snd pe) [Day_reset tm, Update_trades tm pd]"
    by (simp add: run_step_def)
  moreover have "\<forall>a\<in>set [Day_reset tm, Update_trades tm pd]. action_from (set (fst pe)) pd a"
    by (simp add: action_from_def)
  moreover have "set (fst (state_of (run_step pd tm pe))) \<subseteq> set (fst pe)"
    using Raised by (simp add: run_step_def)
  ultimately show ?thesis by blast
next
  case (Done e2)
  let ?e3 = "e2\<lparr>equity := capital e2 + unrealized_value tm pd e2\<rparr>"
  let ?r = "process_due_signals tm (fst pe) ?e3"
  from process_due_signals_actions [of tm "fst pe" ?e3 pd] obtain as where
    as: "snd (state_of ?r) = perform_all ?e3 as"
      "\<forall>a\<in>set as. action_from (set (fst pe)) pd a"
      "set (fst (state_of ?r)) \<subseteq> set (fst pe)"
    by blast
  have pre: "perform_all (snd pe) [Day_reset tm, Update_trades tm pd, Mark_equity tm pd] = ?e3"
    using Done by simp
  have app: "perform_all (snd pe) ([Day_reset tm, Update_trades tm pd, Mark_equity tm pd] @ bs)
      = perform_all ?e3 bs" for bs
    by (simp only: perform_all_append pre)
  show ?thesis
  proof (cases ?r)
    case (Raised err pe4)
    let ?as = "[Day_reset tm, Update_trades tm pd, Mark_equity tm pd] @ as"
    have "snd (state_of (run_step pd tm pe)) = snd (state_of ?r)"
      using Done Raised by (simp add: run_step_def)
    then have "snd (state_of (run_step pd tm pe)) = perform_all (snd pe) ?as"
      using as(1) by (simp only: app)
    moreover have "\<forall>a\<in>set ?as. action_from (set (fst pe)) pd a"
      using as(2) by (auto simp: action_from_def)
    moreover have "set (fst (state_of (run_step pd tm pe))) \<subseteq> set (fst pe)"
      using Done Raised as(3) by (simp add: run_step_def)
    ultimately show ?thesis by blast
  next
    case r: (Done pe4)
    let ?as = "[Day_reset tm, Update_trades tm pd, Mark_equity tm pd] @ as @ [Record_equity tm]"
    have "snd (state_of (run_step pd tm pe)) = record_equity tm (snd (state_of ?r))"
      using Done r by (simp add: run_step_def)
    moreover have "perform_all (snd pe) ?as = perform_all ?e3 (as @ [Record_equity tm])"
      by (rule app)
    moreover have "perform_all ?e3 (as @ [Record_equity tm]) = record_equity tm (perform_all ?e3 as)"
      by (simp add: perform_all_append)
    ultimately have "snd (state_of (run_step pd tm pe)) = perform_all (snd pe) ?as"
      using as(1) by simp
    moreover have "\<forall>a\<in>set ?as. action_from (set (fst pe)) pd a"
      using as(2) by (auto simp: action_from_def)
    moreover have "set (fst (state_of (run_step pd tm pe))) \<subseteq> set (fst pe)"
      using Done r as(3) by (simp add: run_step_def)
    ultimately show ?thesis by blast
  qed
qed

lemma run_loop_actions:
  "\<exists>as. snd (state_of (run_loop pd max_time tm pe)) = perform_all (snd pe) as
     \<and> (\<forall>a\<in>set as. action_from (set (fst pe)) pd a)"
proof (induction pd max_time tm pe rule: run_loop.induct)
  case (1 pd max_time current_time pe)
  show ?case
  proof (cases "current_time \<le> max_time")
    case False
    then have "snd (state_of (run_loop pd max_time current_time pe)) = perform_all (snd pe) []"
      by (simp add: run_loop.simps)
    then show ?thesis by fastforce
  next
    case True
    from run_step_actions [of pd current_time pe] obtain as where
      as: "snd (state_of (run_step pd current_time pe)) = perform_all (snd pe) as"
        "\<forall>a\<in>set as. action_from (set (fst pe)) pd a"
        "set (fst (state_of (run_step pd current_time pe))) \<subseteq> set (fst pe)"
      by blast
    show ?thesis
    proof (cases "run_step pd current_time pe")
      case (Raised err pe')
      with True as(1) have "snd (state_of (run_loop pd max_time current_time pe)) = perform_all (snd pe) as"
        by (simp add: run_loop.simps [of pd max_time current_time pe])
      with as(2) show ?thesis by blast
    next
      case (Done pe')
      from "1.IH" [OF True Done] obtain bs where
        bs: "snd (state_of (run_loop pd max_time (next_time current_time pe') pe')) = perform_all (snd pe') bs"
          "\<forall>a\<in>set bs. action_from (set (fst pe')) pd a"
        by blast
      have "snd (state_of (run_loop pd max_time current_time pe)) = perform_all (snd pe) (as @ bs)"
        using True Done as(1) bs(1)
        by (simp add: run_loop.simps [of pd max_time current_time pe] perform_all_append)
      moreover have "\<forall>a\<in>set (as @ bs). action_from (set (fst pe)) pd a"
        using as(2) as(3) bs(2) Done by (auto intro: action_from_mono)
      ultimately show ?thesis by blast
    qed
  qed
qed

lemma engine_run_actions:
  assumes "engine_run e signals pd = Some oc"
  shows "\<exists>as. state_of oc = perform_all e as \<and> (\<forall>a\<in>set as. action_from (set signals) pd a)"
proof -
  let ?all = "concat (map (\<lambda>(tok, df). map fst df) pd)"
  let ?r = "run_loop pd (fold max (tl ?all) (hd ?all)) (fold min (tl ?all) (hd ?all))
              (sort_key signal_time signals, e)"
  from assms have oc: "state_of oc = snd (state_of ?r)"
    by (auto simp: engine_run_def Let_def split: if_splits outcome.splits)
  from run_loop_actions [of pd _ _ "(sort_key signal_time signals, e)"]
  obtain as where "snd (state_of ?r) = perform_all e as"
      "\<forall>a\<in>set as. action_from (set signals) pd a"
    by fastforce
  with oc show ?thesis by auto
qed


section \<open>Paper mode: \<^verbatim>\<open>app/paper_trader.py\<close>\<close>

record paper_trade =
  pt_token_address :: string
  pt_symbol :: string
  pt_chain :: string
  entry_mc :: real
  entry_price_proxy :: real
  pt_entry_time :: time
  pt_position_size_usd :: real
  risk_pct :: real
  initial_units :: real
  pt_current_units :: real
  base_potential :: real
  peak_mc :: real
  peak_potential_used :: real
  pt_status :: string
  tp_levels_hit :: "string list"
  pt_realized_pnl :: real
  pt_exit_reason :: string
  pt_exit_time :: "time option"

record paper_trader =
  p_capital :: real
  p_initial_capital :: real
  p_trades :: "paper_trade list"
  p_active_trades :: "nat list"
  risk_per_trade :: real
  max_trades :: nat

text \<open>
  The fields \<^verbatim>\<open>process_signal\<close> reads from the pair dictionary; \<^verbatim>\<open>None\<close> is a
  missing key. \<^verbatim>\<open>liquidity_usd\<close> is \<^verbatim>\<open>signal_data["liquidity"]["usd"]\<close>.
\<close>

record signal_data =
  base_symbol :: "string option"
  base_address :: "string option"
  chainId :: "string option"
  priceUsd :: "real option"
  marketCap :: "real option"
  liquidity_usd :: "real option"

datatype trade_update = CLOSE nat | TP nat real

definition PaperTrader :: "real \<Rightarrow> paper_trader" where
  "PaperTrader initial_cap =
     \<lparr>p_capital = initial_cap, p_initial_capital = initial_cap, p_trades = [],
      p_active_trades = [], risk_per_trade = 0.02, max_trades = 4\<rparr>"

subsection \<open>\<^verbatim>\<open>process_signal\<close>\<close>

definition price_usd_of :: "signal_data \<Rightarrow> real" where
  "price_usd_of sd = (case priceUsd sd of None \<Rightarrow> 0 | Some v \<Rightarrow> v)"

definition mc_of :: "signal_data \<Rightarrow> real" where
  "mc_of sd =
     (let fallback = (case liquidity_usd sd of None \<Rightarrow> 0 | Some u \<Rightarrow> u) * 5
      in case marketCap sd of
           None \<Rightarrow> fallback
         | Some v \<Rightarrow> if v \<noteq> 0 then v else fallback)"

definition new_paper_trade :: "signal_data \<Rightarrow> real \<Rightarrow> time \<Rightarrow> paper_trade" where
  "new_paper_trade sd position_size now =
     (let price_usd = price_usd_of sd;
          units = (if price_usd \<noteq> 0 then position_size / price_usd else 0)
      in \<lparr>pt_token_address = (case base_address sd of None \<Rightarrow> [] | Some a \<Rightarrow> a),
          pt_symbol = (case base_symbol sd of None \<Rightarrow> ''UNK'' | Some y \<Rightarrow> y),
          pt_chain = (case chainId sd of None \<Rightarrow> [] | Some c \<Rightarrow> c),
          entry_mc = mc_of sd,
          entry_price_proxy = price_usd,
          pt_entry_time = now,
          pt_position_size_usd = position_size,
          risk_pct = 5.0,
          initial_units = units,
          pt_current_units = units,
          base_potential = 2.0,
          peak_mc = mc_of sd,
          peak_potential_used = 0,
          pt_status = ''OPEN'',
          tp_levels_hit = [],
          pt_realized_pnl = 0,
          pt_exit_reason = [],
          pt_exit_time = None\<rparr>)"

text \<open>The result is the new trade (its position in \<^verbatim>\<open>trades\<close>) or \<^verbatim>\<open>None\<close>.\<close>

definition trader_process_signal ::
  "paper_trader \<Rightarrow> signal_data \<Rightarrow> time \<Rightarrow> nat option \<times> paper_trader" where
  "trader_process_signal p sd now =
     (if length (p_active_trades p) \<ge> max_trades p then (None, p)
      else if p_capital p \<le> 0 then (None, p)
      else
        let position_size = p_capital p * 0.05
        in (Some (length (p_trades p)),
            p\<lparr>p_capital := p_capital p - position_size,
              p_active_trades := p_active_trades p @ [length (p_trades p)],
              p_trades := p_trades p @ [new_paper_trade sd position_size now]\<rparr>))"

subsection \<open>\<^verbatim>\<open>_close_trade\<close> and \<^verbatim>\<open>_partial_close\<close>\<close>

definition paper_trade_close :: "paper_trade \<Rightarrow> real \<Rightarrow> string \<Rightarrow> time \<Rightarrow> paper_trade" where
  "paper_trade_close t current_mc reason now =
     (let price_ratio = current_mc / entry_mc t;
          exit_price_proxy = entry_price_proxy t * price_ratio;
          proceeds = pt_current_units t * exit_price_proxy;
          cost_basis = pt_current_units t * entry_price_proxy t;
          pnl = proceeds - cost_basis
      in t\<lparr>pt_realized_pnl := pt_realized_pnl t + pnl,
            pt_current_units := 0,
            pt_status := ''CLOSED'',
            pt_exit_reason := reason,
            pt_exit_time := Some now\<rparr>)"

definition trader_close_trade ::
  "paper_trader \<Rightarrow> nat \<Rightarrow> real \<Rightarrow> string \<Rightarrow> time \<Rightarrow> paper_trader outcome" where
  "trader_close_trade p i current_mc reason now =
     (let t = p_trades p ! i
      in if entry_mc t = 0 then Raised ZeroDivisionError p
         else
           let proceeds = pt_current_units t * (entry_price_proxy t * (current_mc / entry_mc t))
           in Done (p\<lparr>p_capital := p_capital p + proceeds,
                       p_trades := (p_trades p)[i := paper_trade_close t current_mc reason now],
                       p_active_trades := remove1 i (p_active_trades p)\<rparr>))"

definition paper_units_to_sell :: "paper_trade \<Rightarrow> real \<Rightarrow> real" where
  "paper_units_to_sell t pct_to_sell =
     (let u = initial_units t * pct_to_sell
      in if u > pt_current_units t then pt_current_units t else u)"

definition paper_trade_partial_close :: "paper_trade \<Rightarrow> real \<Rightarrow> real \<Rightarrow> paper_trade" where
  "paper_trade_partial_close t pct_to_sell current_mc =
     (let u = paper_units_to_sell t pct_to_sell;
          price_ratio = current_mc / entry_mc t;
          exit_price_proxy = entry_price_proxy t * price_ratio;
          proceeds = u * exit_price_proxy;
          cost_basis = u * entry_price_proxy t;
          pnl = proceeds - cost_basis
      in t\<lparr>pt_realized_pnl := pt_realized_pnl t + pnl,
            pt_current_units := pt_current_units t - u\<rparr>)"

definition trader_partial_close ::
  "paper_trader \<Rightarrow> nat \<Rightarrow> real \<Rightarrow> real \<Rightarrow> string \<Rightarrow> paper_trader outcome" where
  "trader_partial_close p i pct_to_sell current_mc reason =
     (let t = p_trades p ! i
      in if entry_mc t = 0 then Raised ZeroDivisionError p
         else
           let proceeds = paper_units_to_sell t pct_to_sell
                            * (entry_price_proxy t * (current_mc / entry_mc t))
           in Done (p\<lparr>p_capital := p_capital p + proceeds,
                       p_trades := (p_trades p)[i := paper_trade_partial_close t pct_to_sell current_mc]\<rparr>))"

subsection \<open>\<^verbatim>\<open>update_trades\<close>\<close>

definition update_peak :: "real \<Rightarrow> paper_trade \<Rightarrow> paper_trade" where
  "update_peak current_mc t =
     (if current_mc > peak_mc t then t\<lparr>peak_mc := current_mc\<rparr> else t)"

definition pct_used_of :: "real \<Rightarrow> paper_trade \<Rightarrow> real" where
  "pct_used_of current_mc t =
     (if base_potential t \<le> 1.0 then 0
      else
        let target_mc = entry_mc t * base_potential t
        in (current_mc - entry_mc t) / (target_mc - entry_mc t))"

definition loss_pct_of :: "real \<Rightarrow> paper_trade \<Rightarrow> real" where
  "loss_pct_of current_mc t = (entry_mc t - current_mc) / entry_mc t"

definition duration_mins :: "time \<Rightarrow> paper_trade \<Rightarrow> real" where
  "duration_mins now t = real_of_int (now - pt_entry_time t) / 60"

definition set_paper_trade :: "paper_trader \<Rightarrow> nat \<Rightarrow> paper_trade \<Rightarrow> paper_trader" where
  "set_paper_trade p i t = p\<lparr>p_trades := (p_trades p)[i := t]\<rparr>"

text \<open>
  The state of the loop of \<^verbatim>\<open>update_trades\<close> is the trader together with the list
  \<^verbatim>\<open>updates\<close> built so far.
\<close>

type_synonym update_state = "paper_trader \<times> trade_update list"

definition close_and_report ::
  "update_state \<Rightarrow> nat \<Rightarrow> real \<Rightarrow> string \<Rightarrow> time \<Rightarrow> update_state outcome" where
  "close_and_report st i current_mc reason now =
     (case trader_close_trade (fst st) i current_mc reason now of
        Raised err p' \<Rightarrow> Raised err (p', snd st)
      | Done p' \<Rightarrow> Done (p', snd st @ [CLOSE i]))"

definition take_profit_level ::
  "real \<Rightarrow> string \<Rightarrow> real \<Rightarrow> string \<Rightarrow> real \<Rightarrow> real \<Rightarrow> nat \<Rightarrow> update_state
     \<Rightarrow> update_state outcome" where
  "take_profit_level threshold level pct_to_sell reason pct_used current_mc i st =
     (if pct_used \<ge> threshold \<and> level \<notin> set (tp_levels_hit (p_trades (fst st) ! i)) then
        (case trader_partial_close (fst st) i pct_to_sell current_mc reason of
           Raised err p' \<Rightarrow> Raised err (p', snd st)
         | Done p' \<Rightarrow>
             Done (set_paper_trade p' i
                     ((p_trades p' ! i)\<lparr>tp_levels_hit := tp_levels_hit (p_trades p' ! i) @ [level]\<rparr>),
                   snd st @ [TP i pct_to_sell]))
      else Done st)"

definition trader_update_trade ::
  "(string \<Rightarrow> real option) \<Rightarrow> time \<Rightarrow> update_state \<Rightarrow> nat \<Rightarrow> update_state outcome" where
  "trader_update_trade current_data_map now st i =
     (let t = p_trades (fst st) ! i
      in case current_data_map (pt_token_address t) of
           None \<Rightarrow> Done st
         | Some current_mc \<Rightarrow>
             if current_mc = 0 then Done st
             else
               let st1 = (set_paper_trade (fst st) i (update_peak current_mc t), snd st)
               in if entry_mc t = 0 then Raised ZeroDivisionError st1
                  else if base_potential t - 1.0 = 0 then Raised ZeroDivisionError st1
                  else if base_potential t > 1.0 \<and> entry_mc t * base_potential t - entry_mc t = 0
                    then Raised ZeroDivisionError st1
                  else
                    let pct_used = pct_used_of current_mc t;
                        loss_pct = loss_pct_of current_mc t
                    in if loss_pct \<ge> 0.30
                       then close_and_report st1 i current_mc ''STOP_LOSS_30_PCT'' now
                       else if duration_mins now t > 90 \<and> pct_used < 0.30
                       then close_and_report st1 i current_mc ''TIME_EXIT_STAGNANT'' now
                       else
                         and_then (take_profit_level 0.30 ''30%'' 0.20 ''TP_30_PCT''
                                     pct_used current_mc i st1) (\<lambda>st2.
                         and_then (take_profit_level 0.50 ''50%'' 0.25 ''TP_50_PCT''
                                     pct_used current_mc i st2) (\<lambda>st3.
                         take_profit_level 0.70 ''70%'' 0.30 ''TP_70_PCT''
                           pct_used current_mc i st3)))"

fun trader_update_loop ::
  "(string \<Rightarrow> real option) \<Rightarrow> time \<Rightarrow> nat list \<Rightarrow> update_state \<Rightarrow> update_state outcome" where
  "trader_update_loop current_data_map now [] st = Done st"
| "trader_update_loop current_data_map now (i # snapshot) st =
     and_then (trader_update_trade current_data_map now st i)
       (trader_update_loop current_data_map now snapshot)"

definition trader_update_trades ::
  "paper_trader \<Rightarrow> (string \<Rightarrow> real option) \<Rightarrow> time \<Rightarrow> update_state outcome" where
  "trader_update_trades p current_data_map now =
     trader_update_loop current_data_map now (p_active_trades p) (p, [])"

section \<open>Admission\<close>

text \<open>C9: a signal scoring below 80 is dropped by the backtest engine before anything
  else is looked at: no trade is created and the engine state, in particular capital,
  \<^verbatim>\<open>active_trades\<close> and \<^verbatim>\<open>trades\<close>, is what it was.\<close>

theorem low_score_rejected:
  "signal_score sig < 80 \<Longrightarrow> engine_process_signal e sig = Done e"
  by (simp add: engine_process_signal_def)

theorem low_score_rejected_witness:
  "(75::real) < 80 \<and>
   engine_process_signal (BacktestEngine 200)
     \<lparr>sig_token_address = ''0xToken0'', sig_symbol = ''MEME0'', sig_chain = ''solana'',
      signal_time = 0, signal_score = 75, price_at_signal = 1\<rparr>
   = Done (BacktestEngine 200)"
  using low_score_rejected [of "\<lparr>sig_token_address = ''0xToken0'', sig_symbol = ''MEME0'',
      sig_chain = ''solana'', signal_time = 0, signal_score = 75, price_at_signal = 1\<rparr>"
      "BacktestEngine 200"]
  by simp

section \<open>The stop level in backtest mode\<close>

lemma state_of_and_then:
  "state_of (and_then x f) = (case x of Done s \<Rightarrow> state_of (f s) | Raised err s \<Rightarrow> s)"
  by (cases x) simp_all

text \<open>
  \<open>stops_raised ts ts'\<close>: the trades of \<open>ts\<close> are still there in \<open>ts'\<close>, at the same
  positions and with the same entry price, and none has a lower stop.
\<close>

definition stops_raised :: "trade list \<Rightarrow> trade list \<Rightarrow> bool" where
  "stops_raised ts ts' \<longleftrightarrow>
     length ts \<le> length ts' \<and>
     (\<forall>j<length ts. stop_loss_price (ts ! j) \<le> stop_loss_price (ts' ! j)
         \<and> entry_price (ts' ! j) = entry_price (ts ! j))"

lemma stops_raised_refl: "stops_raised ts ts"
  by (simp add: stops_raised_def)

lemma stops_raised_trans:
  "stops_raised ts ts' \<Longrightarrow> stops_raised ts' ts'' \<Longrightarrow> stops_raised ts ts''"
  unfolding stops_raised_def by (metis (no_types, lifting) order_trans less_le_trans)

lemma stops_raised_list_update:
  assumes "i < length ts \<Longrightarrow>
    stop_loss_price (ts ! i) \<le> stop_loss_price t \<and> entry_price t = entry_price (ts ! i)"
  shows "stops_raised ts (ts[i := t])"
proof (cases "i < length ts")
  case True
  with assms show ?thesis by (auto simp: stops_raised_def nth_list_update)
next
  case False
  then show ?thesis by (simp add: stops_raised_def)
qed

lemma stops_raised_append: "stops_raised ts (ts @ us)"
  by (simp add: stops_raised_def nth_append)

lemma process_signal_stops:
  "stops_raised (trades e) (trades (state_of (engine_process_signal e sig)))"
  by (simp add: engine_process_signal_def Let_def stops_raised_refl stops_raised_append)

lemma close_trade_stops:
  "stops_raised (trades e) (trades (engine_close_trade e i price tm reason))"
  by (simp add: engine_close_trade_def Let_def trade_close_def stops_raised_list_update)

lemma partial_close_stops:
  "stops_raised (trades e) (trades (state_of (engine_partial_close e i pct price reason)))"
  by (simp add: engine_partial_close_def Let_def trade_partial_close_def
        stops_raised_list_update stops_raised_refl)

lemma set_trade_stops:
  assumes "i < length (trades e) \<Longrightarrow>
    stop_loss_price (trades e ! i) \<le> stop_loss_price t \<and> entry_price t = entry_price (trades e ! i)"
  shows "stops_raised (trades e) (trades (set_trade e i t))"
  using assms by (simp add: set_trade_def stops_raised_list_update)

lemma and_then_stops:
  assumes "stops_raised (trades e) (trades (state_of x))"
    and "\<And>s. stops_raised (trades s) (trades (state_of (f s)))"
  shows "stops_raised (trades e) (trades (state_of (and_then x f)))"
proof (cases x)
  case (Done s)
  with assms(1) assms(2) [of s] show ?thesis
    by (auto intro: stops_raised_trans)
next
  case (Raised err s)
  with assms(1) show ?thesis by simp
qed

lemma take_profit_1_stops:
  "stops_raised (trades e) (trades (state_of (take_profit_1 roi p e i)))"
  unfolding take_profit_1_def
  by (auto intro!: and_then_stops partial_close_stops set_trade_stops
        simp: stops_raised_refl Let_def)

lemma take_profit_2_stops:
  "stops_raised (trades e) (trades (state_of (take_profit_2 roi p e i)))"
  unfolding take_profit_2_def
  by (auto intro!: and_then_stops partial_close_stops set_trade_stops
        simp: stops_raised_refl Let_def)

lemma take_profit_3_stops:
  "stops_raised (trades e) (trades (state_of (take_profit_3 roi p e i)))"
  unfolding take_profit_3_def
  by (auto intro!: and_then_stops partial_close_stops set_trade_stops
        simp: stops_raised_refl Let_def)

lemma check_daily_stops:
  "stops_raised (trades e) (trades (check_daily_loss_limit e))"
  by (simp add: check_daily_loss_limit_def Let_def stops_raised_refl)

lemma hard_stop_update_stop:
  "stop_loss_price (hard_stop_update tm t) =
     (if minutes_in tm t > 15 then max (stop_loss_price t) (entry_price t * 0.70)
      else stop_loss_price t)"
  by (simp add: hard_stop_update_def Let_def max_def)

lemma trailing_stop_update_stop:
  "stop_loss_price (trailing_stop_update t) =
     (if roi_of (ath_price t) t \<ge> 0.40 then max (stop_loss_price t) (ath_price t * (1 - 0.35))
      else stop_loss_price t)"
  by (simp add: trailing_stop_update_def Let_def max_def)

lemma update_ath_fields [simp]:
  "stop_loss_price (update_ath p t) = stop_loss_price t"
  "entry_price (update_ath p t) = entry_price t"
  "entry_time (update_ath p t) = entry_time t"
  "current_units (update_ath p t) = current_units t"
  "position_size_usd (update_ath p t) = position_size_usd t"
  "status (update_ath p t) = status t"
  "tp1_hit (update_ath p t) = tp1_hit t"
  "tp2_hit (update_ath p t) = tp2_hit t"
  "tp3_hit (update_ath p t) = tp3_hit t"
  "token_address (update_ath p t) = token_address t"
  by (simp_all add: update_ath_def)

lemma hard_stop_update_fields [simp]:
  "entry_price (hard_stop_update tm t) = entry_price t"
  "entry_time (hard_stop_update tm t) = entry_time t"
  "ath_price (hard_stop_update tm t) = ath_price t"
  "current_units (hard_stop_update tm t) = current_units t"
  "position_size_usd (hard_stop_update tm t) = position_size_usd t"
  "status (hard_stop_update tm t) = status t"
  "tp1_hit (hard_stop_update tm t) = tp1_hit t"
  "tp2_hit (hard_stop_update tm t) = tp2_hit t"
  "tp3_hit (hard_stop_update tm t) = tp3_hit t"
  "token_address (hard_stop_update tm t) = token_address t"
  by (simp_all add: hard_stop_update_def Let_def)

lemma trailing_stop_update_fields [simp]:
  "entry_price (trailing_stop_update t) = entry_price t"
  "entry_time (trailing_stop_update t) = entry_time t"
  "ath_price (trailing_stop_update t) = ath_price t"
  "current_units (trailing_stop_update t) = current_units t"
  "position_size_usd (trailing_stop_update t) = position_size_usd t"
  "status (trailing_stop_update t) = status t"
  "tp1_hit (trailing_stop_update t) = tp1_hit t"
  "tp2_hit (trailing_stop_update t) = tp2_hit t"
  "tp3_hit (trailing_stop_update t) = tp3_hit t"
  "token_address (trailing_stop_update t) = token_address t"
  by (simp_all add: trailing_stop_update_def Let_def)

lemma evaluate_exits_stops:
  "stops_raised (trades e) (trades (state_of (evaluate_exits tm p e i)))"
proof -
  let ?e1 = "set_trade e i (hard_stop_update tm (update_ath p (trades e ! i)))"
  let ?e2 = "set_trade ?e1 i (trailing_stop_update (trades ?e1 ! i))"
  have 1: "stops_raised (trades e) (trades ?e1)"
    by (intro set_trade_stops) (simp add: hard_stop_update_stop)
  have 2: "stops_raised (trades ?e1) (trades ?e2)"
    by (intro set_trade_stops) (simp add: trailing_stop_update_stop)
  have 12: "stops_raised (trades e) (trades ?e2)"
    using 1 2 by (rule stops_raised_trans)
  have tail: "stops_raised (trades ?e2) (trades (state_of
      (and_then (take_profit_1 r p ?e2 i) (\<lambda>e3.
       and_then (take_profit_2 r p e3 i) (\<lambda>e4.
       and_then (take_profit_3 r p e4 i) (\<lambda>e5.
         if c e5 then Done (engine_close_trade e5 i p tm ''TIME_EXIT'')
         else Done (check_daily_loss_limit e5)))))))" for r c
    by (intro and_then_stops take_profit_1_stops take_profit_2_stops take_profit_3_stops)
       (simp add: close_trade_stops check_daily_stops)
  show ?thesis
    unfolding evaluate_exits_def Let_def
    using 1 12 close_trade_stops [of ?e2 i p tm "''STOP_LOSS''"] tail
    by (auto intro: stops_raised_trans)
qed

lemma update_trade_stops:
  "stops_raised (trades e) (trades (state_of (update_trade tm pd e i)))"
  unfolding update_trade_def
  by (simp add: evaluate_exits_stops close_trade_stops stops_raised_refl split: option.split)

lemma update_trades_loop_stops:
  "stops_raised (trades e) (trades (state_of (update_trades_loop tm pd snapshot e)))"
proof (induction snapshot arbitrary: e)
  case Nil
  show ?case by (simp add: stops_raised_refl)
next
  case (Cons i snapshot)
  show ?case
    unfolding update_trades_loop.simps
    by (rule and_then_stops) (rule update_trade_stops, rule Cons.IH)
qed

lemma engine_update_trades_stops:
  "stops_raised (trades e) (trades (state_of (engine_update_trades tm pd e)))"
  unfolding engine_update_trades_def by (rule update_trades_loop_stops)

lemma perform_stops: "stops_raised (trades e) (trades (state_of (perform e a)))"
  by (cases a)
     (simp_all add: process_signal_stops engine_update_trades_stops stops_raised_refl
        day_reset_def record_equity_def)

lemma perform_all_stops: "stops_raised (trades e) (trades (perform_all e as))"
proof (induction as arbitrary: e)
  case Nil
  show ?case by (simp add: stops_raised_refl)
next
  case (Cons a as)
  from perform_stops [of e a] Cons.IH [of "state_of (perform e a)"] show ?case
    by (auto intro: stops_raised_trans)
qed

text \<open>C4: in backtest mode the stop of a position never goes down. Whatever is done to
  the engine after a trade exists (any sequence of signal admissions, trade updates
  and the bookkeeping of \<^verbatim>\<open>run\<close>, and so any run), its \<^verbatim>\<open>stop_loss_price\<close> is at
  least what it was. The two stop adjustments are raises to a maximum: after more than
  15 minutes to \<open>max stop (entry \<times> 0.70)\<close>, and once the peak ROI is at least 0.40 to
  \<open>max stop (peak \<times> (1 - 0.35))\<close>; the first take-profit tier raises it to
  \<open>max stop entry\<close>.\<close>

theorem stop_level_non_decreasing:
  assumes "j < length (trades e)"
  shows "stop_loss_price (trades e ! j) \<le> stop_loss_price (trades (perform_all e as) ! j)
    \<and> (\<forall>oc. engine_run e signals pd = Some oc \<longrightarrow>
          stop_loss_price (trades e ! j) \<le> stop_loss_price (trades (state_of oc) ! j))
    \<and> stop_loss_price (hard_stop_update tm t) =
        (if minutes_in tm t > 15 then max (stop_loss_price t) (entry_price t * 0.70)
         else stop_loss_price t)
    \<and> stop_loss_price (trailing_stop_update t) =
        (if roi_of (ath_price t) t \<ge> 0.40
         then max (stop_loss_price t) (ath_price t * (1 - 0.35))
         else stop_loss_price t)"
proof -
  have seq: "stop_loss_price (trades e ! j) \<le> stop_loss_price (trades (perform_all e bs) ! j)"
    for bs
    using perform_all_stops [of e bs] assms by (simp add: stops_raised_def)
  have "stop_loss_price (trades e ! j) \<le> stop_loss_price (trades (state_of oc) ! j)"
    if "engine_run e signals pd = Some oc" for oc
  proof -
    from engine_run_actions [OF that] obtain bs where "state_of oc = perform_all e bs"
      by blast
    with seq [of bs] show ?thesis by simp
  qed
  with seq [of as] show ?thesis
    by (simp only: hard_stop_update_stop trailing_stop_update_stop) blast
qed

end
